theory Spec2Isabelle
  imports Complex_Main
begin

section \<open>Python values and the library functions the widget calls\<close>

text \<open>
  The widget (\<^verbatim>\<open>floating_clock.py\<close>) receives its configuration from the command line and
  from a JSON state file, so its normalisers see arbitrary decoded JSON values. A float is
  kept as the exact number it denotes, or as one of the three special values that
  \<^verbatim>\<open>json.loads\<close> produces for \<^verbatim>\<open>Infinity\<close>, \<^verbatim>\<open>-Infinity\<close>, \<^verbatim>\<open>NaN\<close> and for literals
  such as \<^verbatim>\<open>1e999\<close>.
\<close>

datatype pyfloat = Finite rat | PosInf | NegInf | NaN

datatype pyval =
    PNone
  | PBool bool
  | PInt int
  | PFloat pyfloat
  | PStr string
  | PList "pyval list"
  | PDict "(string \<times> pyval) list"

datatype pyerr = TypeError | ValueError | OverflowError | KeyError | OSError | RecursionError

text \<open>
  Library functions whose result the code only passes on are parameters of the model:
  \<^item> \<open>int_of_str s\<close> is \<^verbatim>\<open>int(s)\<close> for a string, \<open>None\<close> standing for \<^verbatim>\<open>ValueError\<close>;
  \<^item> \<open>str_strip s\<close> is \<^verbatim>\<open>s.strip()\<close>.
  Every theorem below holds for all of their possible behaviours.
\<close>

record runtime =
  int_of_str :: "string \<Rightarrow> int option"
  str_strip :: "string \<Rightarrow> string"

text \<open>\<^verbatim>\<open>int(x)\<close> on a finite float truncates towards zero.\<close>

definition trunc_rat :: "rat \<Rightarrow> int" where
  "trunc_rat r = (if 0 \<le> r then \<lfloor>r\<rfloor> else - \<lfloor>- r\<rfloor>)"

fun py_int :: "runtime \<Rightarrow> pyval \<Rightarrow> pyerr + int" where
  "py_int rt PNone = Inl TypeError"
| "py_int rt (PBool b) = Inr (if b then 1 else 0)"
| "py_int rt (PInt n) = Inr n"
| "py_int rt (PFloat (Finite r)) = Inr (trunc_rat r)"
| "py_int rt (PFloat PosInf) = Inl OverflowError"
| "py_int rt (PFloat NegInf) = Inl OverflowError"
| "py_int rt (PFloat NaN) = Inl ValueError"
| "py_int rt (PStr s) = (case int_of_str rt s of None \<Rightarrow> Inl ValueError | Some n \<Rightarrow> Inr n)"
| "py_int rt (PList xs) = Inl TypeError"
| "py_int rt (PDict kvs) = Inl TypeError"

text \<open>Lists and dicts are the unhashable JSON values: looking one up in a dict raises.\<close>

fun hashable :: "pyval \<Rightarrow> bool" where
  "hashable (PList xs) = False"
| "hashable (PDict kvs) = False"
| "hashable v = True"

fun is_infinite :: "pyval \<Rightarrow> bool" where
  "is_infinite (PFloat PosInf) = True"
| "is_infinite (PFloat NegInf) = True"
| "is_infinite v = False"

text \<open>\<^verbatim>\<open>d.get(key)\<close> on a decoded JSON object.\<close>

type_synonym pydict = "string \<rightharpoonup> pyval"

definition dict_get :: "pydict \<Rightarrow> string \<Rightarrow> pyval" where
  "dict_get d k = (case d k of None \<Rightarrow> PNone | Some v \<Rightarrow> v)"

definition dict_item :: "pydict \<Rightarrow> string \<Rightarrow> pyerr + pyval" where
  "dict_item d k = (case d k of None \<Rightarrow> Inl KeyError | Some v \<Rightarrow> Inr v)"

section \<open>Module constants\<close>

definition MODE_CLOCK :: string where "MODE_CLOCK = ''clock''"
definition MODE_STOPWATCH :: string where "MODE_STOPWATCH = ''stopwatch''"
definition DEFAULT_MODE :: string where "DEFAULT_MODE = MODE_CLOCK"

definition LAYER_TOP :: string where "LAYER_TOP = ''top''"
definition LAYER_NORMAL :: string where "LAYER_NORMAL = ''normal''"
definition LAYER_BOTTOM :: string where "LAYER_BOTTOM = ''bottom''"
definition DEFAULT_LAYER :: string where "DEFAULT_LAYER = LAYER_TOP"

definition MIN_CLOCK_SIZE :: int where "MIN_CLOCK_SIZE = 120"
definition MAX_CLOCK_SIZE :: int where "MAX_CLOCK_SIZE = 640"
definition DEFAULT_CLOCK_SIZE :: int where "DEFAULT_CLOCK_SIZE = 220"

text \<open>The keys of \<^verbatim>\<open>THEME_PRESETS\<close> with their labels; the colour tables are not read here.\<close>

definition THEME_PRESETS :: "(string \<times> string) list" where
  "THEME_PRESETS =
     [(''midnight'', ''Midnight''), (''daylight'', ''Daylight''),
      (''high_contrast'', ''High Contrast''), (''ocean'', ''Ocean'')]"

definition DEFAULT_THEME :: string where "DEFAULT_THEME = ''midnight''"
definition DEFAULT_READOUT_FONT :: string where "DEFAULT_READOUT_FONT = ''Monospace''"

section \<open>Normalisers\<close>

text \<open>\<^verbatim>\<open>mode in (MODE_CLOCK, MODE_STOPWATCH)\<close> compares with \<^verbatim>\<open>==\<close>, which no value refuses.\<close>

fun valid_mode :: "pyval \<Rightarrow> string" where
  "valid_mode (PStr s) = (if s = MODE_CLOCK \<or> s = MODE_STOPWATCH then s else DEFAULT_MODE)"
| "valid_mode v = DEFAULT_MODE"

fun valid_layer :: "pyval \<Rightarrow> string" where
  "valid_layer (PStr s) =
     (if s = LAYER_TOP \<or> s = LAYER_NORMAL \<or> s = LAYER_BOTTOM then s else DEFAULT_LAYER)"
| "valid_layer v = DEFAULT_LAYER"

text \<open>\<^verbatim>\<open>theme_name in THEME_PRESETS\<close> is a dict lookup: it hashes the value first.\<close>

definition valid_theme :: "pyval \<Rightarrow> pyerr + string" where
  "valid_theme theme_name =
     (if \<not> hashable theme_name then Inl TypeError
      else case theme_name of
             PStr s \<Rightarrow> Inr (if s \<in> set (map fst THEME_PRESETS) then s else DEFAULT_THEME)
           | _ \<Rightarrow> Inr DEFAULT_THEME)"

text \<open>The \<^verbatim>\<open>try\<close> block catches \<^verbatim>\<open>TypeError\<close> and \<^verbatim>\<open>ValueError\<close> only.\<close>

definition valid_size :: "runtime \<Rightarrow> pyval \<Rightarrow> pyerr + int" where
  "valid_size rt v =
     (case (case py_int rt v of
              Inr n \<Rightarrow> Inr n
            | Inl e \<Rightarrow> if e = TypeError \<or> e = ValueError then Inr DEFAULT_CLOCK_SIZE else Inl e) of
        Inl e \<Rightarrow> Inl e
      | Inr parsed \<Rightarrow> Inr (max MIN_CLOCK_SIZE (min MAX_CLOCK_SIZE parsed)))"

fun normalize_readout_font :: "runtime \<Rightarrow> pyval \<Rightarrow> string" where
  "normalize_readout_font rt (PStr font_name) =
     (let normalized = str_strip rt font_name
      in if normalized \<noteq> [] then normalized else DEFAULT_READOUT_FONT)"
| "normalize_readout_font rt v = DEFAULT_READOUT_FONT"

section \<open>Loading the persisted record\<close>

text \<open>
  \<^verbatim>\<open>STATE_FILE.read_text\<close> followed by \<^verbatim>\<open>json.loads\<close> either raises or yields a value;
  a decoding error is a \<^verbatim>\<open>ValueError\<close>. Which of these happens is decided outside the
  program, so it is the argument of the model.
\<close>

datatype read_outcome = Raises pyerr | Parsed pyval

fun load_saved_state :: "read_outcome \<Rightarrow> pyerr + pydict" where
  "load_saved_state (Parsed (PDict kvs)) = Inr (map_of (rev kvs))"
| "load_saved_state (Parsed v) = Inr Map.empty"
| "load_saved_state (Raises e) = (if e = OSError \<or> e = ValueError then Inr Map.empty else Inl e)"

section \<open>Points, rectangles and screens\<close>

text \<open>
  Qt's integer geometry, with the meaning Qt documents: a rectangle is its top-left corner
  and its size, its right and bottom edges are \<open>left + width - 1\<close> and \<open>top + height - 1\<close>,
  \<^verbatim>\<open>QRect::center\<close> halves the sum of opposite edges with C++ division (rounding towards
  zero), and \<^verbatim>\<open>QRect::contains\<close> includes the edges and is false for a null rectangle.
\<close>

type_synonym qpoint = "int \<times> int"

record qrect =
  rect_left :: int
  rect_top :: int
  rect_width :: int
  rect_height :: int

definition cpp_half :: "int \<Rightarrow> int" where
  "cpp_half n = (if 0 \<le> n then n div 2 else - ((- n) div 2))"

definition rect_right :: "qrect \<Rightarrow> int" where
  "rect_right r = rect_left r + rect_width r - 1"

definition rect_bottom :: "qrect \<Rightarrow> int" where
  "rect_bottom r = rect_top r + rect_height r - 1"

definition rect_center :: "qrect \<Rightarrow> qpoint" where
  "rect_center r =
     (cpp_half (rect_left r + rect_right r), cpp_half (rect_top r + rect_bottom r))"

definition between :: "int \<Rightarrow> int \<Rightarrow> int \<Rightarrow> bool" where
  "between a b p = (if b < a - 1 then b \<le> p \<and> p \<le> a else a \<le> p \<and> p \<le> b)"

definition rect_contains :: "qrect \<Rightarrow> qpoint \<Rightarrow> bool" where
  "rect_contains r p =
     (if rect_width r = 0 \<and> rect_height r = 0 then False
      else between (rect_left r) (rect_right r) (fst p)
         \<and> between (rect_top r) (rect_bottom r) (snd p))"

definition point_sub :: "qpoint \<Rightarrow> qpoint \<Rightarrow> qpoint" where
  "point_sub p q = (fst p - fst q, snd p - snd q)"

definition manhattanLength :: "qpoint \<Rightarrow> int" where
  "manhattanLength p = \<bar>fst p\<bar> + \<bar>snd p\<bar>"

text \<open>
  What the widget asks of the running application: the screens in the order of
  \<^verbatim>\<open>QApplication.screens()\<close> (the primary screen first), the cursor position, and the native
  window handle, which exists only once the window has been created.
\<close>

record window_handle =
  handle_screen :: "qrect option"
  has_startSystemMove :: bool
  startSystemMove :: bool

record env =
  screens :: "qrect list"
  cursor_pos :: qpoint
  windowHandle :: "window_handle option"

definition screenAt :: "env \<Rightarrow> qpoint \<Rightarrow> qrect option" where
  "screenAt e p = find (\<lambda>s. rect_contains s p) (screens e)"

definition primaryScreen :: "env \<Rightarrow> qrect option" where
  "primaryScreen e = (case screens e of [] \<Rightarrow> None | s # _ \<Rightarrow> Some s)"

section \<open>The widget\<close>

text \<open>The record written by \<^verbatim>\<open>save_state\<close>.\<close>

record payload =
  p_x :: int
  p_y :: int
  p_size :: int
  p_mode :: string
  p_layer :: string
  p_theme :: string
  p_readout_font :: string

text \<open>
  The attributes of \<^verbatim>\<open>FloatingAnalogClock\<close>, then the part of the Qt window the methods
  read or set (position, fixed size, visibility, the two stacking hints, the timer
  interval), then the payloads handed to the state file, most recent first. The opacity
  and the list of font choices are painted or shown in the menu only and are left out.
\<close>

record widget =
  clock_size :: int
  readout_height :: int
  layer :: string
  show_seconds :: bool
  mode :: string
  color_theme :: string
  readout_font_family :: string
  stopwatch_running :: bool
  stopwatch_elapsed_ms :: int
  stopwatch_start_time :: rat
  drag_offset :: "qpoint option"
  press_global_pos :: "qpoint option"
  drag_started :: bool
  click_threshold_px :: int
  win_x :: int
  win_y :: int
  win_width :: int
  win_height :: int
  win_visible :: bool
  stays_on_top :: bool
  stays_on_bottom :: bool
  timer_interval :: int
  writes :: "payload list"

definition frameGeometry :: "widget \<Rightarrow> qrect" where
  "frameGeometry w =
     \<lparr>rect_left = win_x w, rect_top = win_y w,
      rect_width = win_width w, rect_height = win_height w\<rparr>"

definition move :: "qpoint \<Rightarrow> widget \<Rightarrow> widget" where
  "move p w = w\<lparr>win_x := fst p, win_y := snd p\<rparr>"

definition set_window_flags :: "string \<Rightarrow> widget \<Rightarrow> widget" where
  "set_window_flags l w =
     w\<lparr>stays_on_top := (l = LAYER_TOP), stays_on_bottom := (l = LAYER_BOTTOM)\<rparr>"

definition apply_window_size :: "widget \<Rightarrow> widget" where
  "apply_window_size w =
     (let extra_height = (if mode w = MODE_STOPWATCH then readout_height w else 0)
      in w\<lparr>win_width := clock_size w, win_height := clock_size w + extra_height\<rparr>)"

definition update_refresh_timer :: "widget \<Rightarrow> widget" where
  "update_refresh_timer w =
     (let interval_ms =
        (if mode w = MODE_STOPWATCH then (if stopwatch_running w then 10 else 33) else 1000)
      in w\<lparr>timer_interval := interval_ms\<rparr>)"

text \<open>
  \<^verbatim>\<open>save_state\<close> hands one payload to the state file. A failing write raises
  \<^verbatim>\<open>OSError\<close>, which the method swallows, so its caller continues alike in both cases.
\<close>

definition save_state :: "widget \<Rightarrow> widget" where
  "save_state w =
     w\<lparr>writes :=
         \<lparr>p_x = win_x w, p_y = win_y w, p_size = clock_size w, p_mode = mode w,
          p_layer = layer w, p_theme = color_theme w,
          p_readout_font = readout_font_family w\<rparr> # writes w\<rparr>"

definition current_screen :: "env \<Rightarrow> widget \<Rightarrow> qrect option" where
  "current_screen e w =
     (let screen = (case windowHandle e of None \<Rightarrow> None | Some h \<Rightarrow> handle_screen h);
          screen = (if screen = None then screenAt e (rect_center (frameGeometry w)) else screen);
          screen = (if screen = None then screenAt e (cursor_pos e) else screen);
          screen = (if screen = None then primaryScreen e else screen)
      in screen)"

definition center_on_screen :: "env \<Rightarrow> widget \<Rightarrow> widget" where
  "center_on_screen e w =
     (case current_screen e w of
        None \<Rightarrow> w
      | Some geometry \<Rightarrow>
          save_state
            (move (rect_left geometry + (rect_width geometry - win_width w) div 2,
                   rect_top geometry + (rect_height geometry - win_height w) div 2) w))"

definition is_on_any_screen :: "env \<Rightarrow> widget \<Rightarrow> bool" where
  "is_on_any_screen e w =
     (let rect = frameGeometry w; center = rect_center rect
      in list_ex (\<lambda>screen. rect_contains screen center) (screens e))"

text \<open>
  \<^verbatim>\<open>restore_position\<close>: the command-line position wins; otherwise the saved one is
  converted, \<^verbatim>\<open>x\<close> before \<^verbatim>\<open>y\<close>, and \<^verbatim>\<open>TypeError\<close>, \<^verbatim>\<open>ValueError\<close> and
  \<^verbatim>\<open>KeyError\<close> lead to centring.
\<close>

definition saved_xy :: "runtime \<Rightarrow> pydict \<Rightarrow> pyerr + qpoint" where
  "saved_xy rt state =
     (case dict_item state ''x'' of
        Inl e \<Rightarrow> Inl e
      | Inr vx \<Rightarrow>
         (case py_int rt vx of
            Inl e \<Rightarrow> Inl e
          | Inr x \<Rightarrow>
             (case dict_item state ''y'' of
                Inl e \<Rightarrow> Inl e
              | Inr vy \<Rightarrow>
                 (case py_int rt vy of
                    Inl e \<Rightarrow> Inl e
                  | Inr y \<Rightarrow> Inr (x, y)))))"

definition restore_position ::
  "runtime \<Rightarrow> env \<Rightarrow> int option \<Rightarrow> int option \<Rightarrow> pydict \<Rightarrow> widget \<Rightarrow> pyerr + widget" where
  "restore_position rt e cli_x cli_y state w =
     (case (cli_x, cli_y) of
        (Some x, Some y) \<Rightarrow> Inr (move (x, y) w)
      | _ \<Rightarrow>
         (case saved_xy rt state of
            Inl err \<Rightarrow>
              if err = TypeError \<or> err = ValueError \<or> err = KeyError
              then Inr (center_on_screen e w) else Inl err
          | Inr p \<Rightarrow>
              (let w1 = move p w
               in Inr (if \<not> is_on_any_screen e w1 then center_on_screen e w1 else w1))))"

subsection \<open>Stopwatch\<close>

text \<open>
  A reading of \<^verbatim>\<open>time.perf_counter()\<close> is the number of seconds it denotes, and
  \<^verbatim>\<open>int((now - start) * 1000.0)\<close> is that difference in milliseconds, truncated towards
  zero; the rounding of the double-precision subtraction and product is not modelled.
\<close>

definition current_stopwatch_ms :: "rat \<Rightarrow> widget \<Rightarrow> int" where
  "current_stopwatch_ms now w =
     (if \<not> stopwatch_running w then stopwatch_elapsed_ms w
      else (let running_ms = trunc_rat ((now - stopwatch_start_time w) * 1000)
            in stopwatch_elapsed_ms w + max 0 running_ms))"


definition toggle_stopwatch_running :: "rat \<Rightarrow> widget \<Rightarrow> widget" where
  "toggle_stopwatch_running now w =
     (if mode w \<noteq> MODE_STOPWATCH then w
      else update_refresh_timer
             (if stopwatch_running w
              then w\<lparr>stopwatch_elapsed_ms := current_stopwatch_ms now w,
                     stopwatch_running := False\<rparr>
              else w\<lparr>stopwatch_start_time := now, stopwatch_running := True\<rparr>))"

definition reset_stopwatch :: "rat \<Rightarrow> widget \<Rightarrow> widget" where
  "reset_stopwatch now w =
     (let w1 = w\<lparr>stopwatch_elapsed_ms := 0\<rparr>
      in if stopwatch_running w1 then w1\<lparr>stopwatch_start_time := now\<rparr> else w1)"

subsection \<open>Mutators\<close>

definition set_mode :: "rat \<Rightarrow> pyval \<Rightarrow> bool \<Rightarrow> widget \<Rightarrow> widget" where
  "set_mode now m persist w =
     (let normalized_mode = valid_mode m
      in if normalized_mode = mode w then w
         else
           (let w1 = (if normalized_mode \<noteq> MODE_STOPWATCH \<and> stopwatch_running w
                      then w\<lparr>stopwatch_elapsed_ms := current_stopwatch_ms now w,
                             stopwatch_running := False\<rparr>
                      else w);
                w2 = update_refresh_timer (apply_window_size (w1\<lparr>mode := normalized_mode\<rparr>))
            in if persist then save_state w2 else w2))"

text \<open>
  \<^verbatim>\<open>set_layer\<close> hides a visible window, sets the flags, puts the old geometry back and
  shows the window again.
\<close>

definition set_layer :: "pyval \<Rightarrow> bool \<Rightarrow> bool \<Rightarrow> widget \<Rightarrow> widget" where
  "set_layer l persist force w =
     (let normalized_layer = valid_layer l
      in if normalized_layer = layer w \<and> \<not> force then w
         else
           (let old_geometry = (win_x w, win_y w, win_width w, win_height w);
                was_visible = win_visible w;
                w1 = w\<lparr>layer := normalized_layer\<rparr>;
                w2 = (if was_visible then w1\<lparr>win_visible := False\<rparr> else w1);
                w3 = set_window_flags normalized_layer w2;
                w4 = (case old_geometry of
                        (x, y, wd, ht) \<Rightarrow>
                          w3\<lparr>win_x := x, win_y := y, win_width := wd, win_height := ht\<rparr>);
                w5 = (if was_visible then w4\<lparr>win_visible := True\<rparr> else w4)
            in if persist then save_state w5 else w5))"

text \<open>
  The statements of \<^verbatim>\<open>set_clock_size\<close> between the test for an unchanged size and the
  test for the screen: store the size, resize the window and put its old centre back.
\<close>

definition resize_about_center :: "int \<Rightarrow> widget \<Rightarrow> widget" where
  "resize_about_center normalized_size w =
     (let old_center = rect_center (frameGeometry w);
          w1 = w\<lparr>clock_size := normalized_size\<rparr>;
          w2 = w1\<lparr>readout_height := max 52 (clock_size w1 div 4)\<rparr>;
          w3 = apply_window_size w2
      in move (fst old_center - win_width w3 div 2,
               snd old_center - win_height w3 div 2) w3)"

definition set_clock_size ::
  "runtime \<Rightarrow> env \<Rightarrow> pyval \<Rightarrow> bool \<Rightarrow> widget \<Rightarrow> pyerr + widget" where
  "set_clock_size rt e v persist w =
     (case valid_size rt v of
        Inl err \<Rightarrow> Inl err
      | Inr normalized_size \<Rightarrow>
          if normalized_size = clock_size w then Inr w
          else
            (let w4 = resize_about_center normalized_size w;
                 w5 = (if \<not> is_on_any_screen e w4 then center_on_screen e w4 else w4)
             in Inr (if persist then save_state w5 else w5)))"

definition set_color_theme :: "pyval \<Rightarrow> bool \<Rightarrow> widget \<Rightarrow> pyerr + widget" where
  "set_color_theme theme_name persist w =
     (case valid_theme theme_name of
        Inl err \<Rightarrow> Inl err
      | Inr normalized_theme \<Rightarrow>
          if normalized_theme = color_theme w then Inr w
          else
            (let w1 = w\<lparr>color_theme := normalized_theme\<rparr>
             in Inr (if persist then save_state w1 else w1)))"

definition set_readout_font :: "runtime \<Rightarrow> pyval \<Rightarrow> bool \<Rightarrow> widget \<Rightarrow> widget" where
  "set_readout_font rt font_family persist w =
     (let normalized = normalize_readout_font rt font_family
      in if normalized = readout_font_family w then w
         else
           (let w1 = w\<lparr>readout_font_family := normalized\<rparr>
            in if persist then save_state w1 else w1))"

subsection \<open>Pointer events\<close>

datatype mouse_button = NoButton | LeftButton | RightButton | MiddleButton

record mouse_event =
  button :: mouse_button
  buttons :: "mouse_button set"
  globalPos :: qpoint

text \<open>
  The request for a native move succeeds when the window handle exists, offers
  \<^verbatim>\<open>startSystemMove\<close> and that call returns true.
\<close>

definition system_move_accepted :: "env \<Rightarrow> bool" where
  "system_move_accepted e =
     (case windowHandle e of
        None \<Rightarrow> False
      | Some h \<Rightarrow> has_startSystemMove h \<and> startSystemMove h)"

definition mousePressEvent :: "env \<Rightarrow> mouse_event \<Rightarrow> widget \<Rightarrow> widget" where
  "mousePressEvent e ev w =
     (if button ev \<noteq> LeftButton then w
      else
        (let w1 = w\<lparr>drag_offset := Some (point_sub (globalPos ev) (win_x w, win_y w)),
                     press_global_pos := Some (globalPos ev),
                     drag_started := False\<rparr>
         in if mode w1 = MODE_CLOCK \<and> system_move_accepted e
            then w1\<lparr>drag_started := True, drag_offset := None\<rparr>
            else w1))"

definition mouseMoveEvent :: "mouse_event \<Rightarrow> widget \<Rightarrow> widget" where
  "mouseMoveEvent ev w =
     (case drag_offset w of
        None \<Rightarrow> w
      | Some offset \<Rightarrow>
          if LeftButton \<notin> buttons ev then w
          else
            (let w1 = (case press_global_pos w of
                         None \<Rightarrow> w
                       | Some press \<Rightarrow>
                           if \<not> drag_started w
                           then (let drag_distance =
                                       manhattanLength (point_sub (globalPos ev) press)
                                 in if drag_distance > click_threshold_px w
                                    then w\<lparr>drag_started := True\<rparr> else w)
                           else w)
             in if drag_started w1 then move (point_sub (globalPos ev) offset) w1 else w1))"

definition was_click :: "mouse_event \<Rightarrow> widget \<Rightarrow> bool" where
  "was_click ev w =
     (case press_global_pos w of
        None \<Rightarrow> False
      | Some press \<Rightarrow>
          (let distance = manhattanLength (point_sub (globalPos ev) press)
           in distance \<le> click_threshold_px w \<and> \<not> drag_started w))"

definition mouseReleaseEvent :: "rat \<Rightarrow> mouse_event \<Rightarrow> widget \<Rightarrow> widget" where
  "mouseReleaseEvent now ev w =
     (if button ev \<noteq> LeftButton then w
      else
        (let w1 = (if mode w = MODE_STOPWATCH \<and> was_click ev w
                   then toggle_stopwatch_running now w else w);
             w2 = (if drag_started w1 then save_state w1 else w1)
         in w2\<lparr>drag_offset := None, press_global_pos := None, drag_started := False\<rparr>))"

subsection \<open>Construction and start-up\<close>

text \<open>
  \<^verbatim>\<open>__init__\<close> normalises its arguments in the order size, layer, mode, theme, font. A new
  top-level Qt widget sits at the origin, hidden, until it is moved and shown.
\<close>

definition FloatingAnalogClock ::
  "runtime \<Rightarrow> pyval \<Rightarrow> bool \<Rightarrow> pyval \<Rightarrow> pyval \<Rightarrow> pyval \<Rightarrow> pyval \<Rightarrow> pyerr + widget" where
  "FloatingAnalogClock rt sz show_secs l m theme readout_font =
     (case valid_size rt sz of
        Inl err \<Rightarrow> Inl err
      | Inr cs \<Rightarrow>
         (case valid_theme theme of
            Inl err \<Rightarrow> Inl err
          | Inr th \<Rightarrow>
              Inr (update_refresh_timer (apply_window_size (set_window_flags (valid_layer l)
                \<lparr>clock_size = cs, readout_height = max 52 (cs div 4),
                 layer = valid_layer l, show_seconds = show_secs, mode = valid_mode m,
                 color_theme = th,
                 readout_font_family = normalize_readout_font rt readout_font,
                 stopwatch_running = False, stopwatch_elapsed_ms = 0,
                 stopwatch_start_time = 0,
                 drag_offset = None, press_global_pos = None, drag_started = False,
                 click_threshold_px = 6,
                 win_x = 0, win_y = 0, win_width = 640, win_height = 480,
                 win_visible = False, stays_on_top = False, stays_on_bottom = False,
                 timer_interval = 0, writes = []\<rparr>)))))"

text \<open>The parsed command line, as far as \<^verbatim>\<open>main\<close> reads it to configure the widget.\<close>

record args =
  arg_size :: "int option"
  arg_hide_seconds :: bool
  arg_mode :: "string option"
  arg_layer :: "string option"
  arg_theme :: "string option"
  arg_readout_font :: "string option"
  arg_x :: "int option"
  arg_y :: "int option"

text \<open>\<^verbatim>\<open>a if a else d.get(key)\<close>: an absent or empty option falls back to the saved value.\<close>

definition arg_or_saved :: "string option \<Rightarrow> pydict \<Rightarrow> string \<Rightarrow> pyval" where
  "arg_or_saved a saved k =
     (case a of
        None \<Rightarrow> dict_get saved k
      | Some s \<Rightarrow> if s \<noteq> [] then PStr s else dict_get saved k)"

record launch =
  launch_size :: int
  launch_mode :: string
  launch_layer :: string
  launch_theme :: string
  launch_font :: string

definition launch_settings :: "runtime \<Rightarrow> args \<Rightarrow> pydict \<Rightarrow> pyerr + launch" where
  "launch_settings rt a saved_state =
     (case valid_size rt (case arg_size a of
                            Some n \<Rightarrow> PInt n
                          | None \<Rightarrow> dict_get saved_state ''size'') of
        Inl err \<Rightarrow> Inl err
      | Inr sz \<Rightarrow>
         (case valid_theme (arg_or_saved (arg_theme a) saved_state ''theme'') of
            Inl err \<Rightarrow> Inl err
          | Inr th \<Rightarrow>
              Inr \<lparr>launch_size = sz,
                   launch_mode = valid_mode (arg_or_saved (arg_mode a) saved_state ''mode''),
                   launch_layer = valid_layer (arg_or_saved (arg_layer a) saved_state ''layer''),
                   launch_theme = th,
                   launch_font =
                     normalize_readout_font rt
                       (arg_or_saved (arg_readout_font a) saved_state ''readout_font'')\<rparr>))"

text \<open>
  \<^verbatim>\<open>main\<close> up to the start of the event loop, for a run without install flags: load,
  normalise, construct, restore the position, show, apply the layer.
\<close>

definition main_startup :: "runtime \<Rightarrow> env \<Rightarrow> args \<Rightarrow> read_outcome \<Rightarrow> pyerr + widget" where
  "main_startup rt e a outcome =
     (case load_saved_state outcome of
        Inl err \<Rightarrow> Inl err
      | Inr saved_state \<Rightarrow>
         (case launch_settings rt a saved_state of
            Inl err \<Rightarrow> Inl err
          | Inr cfg \<Rightarrow>
             (case FloatingAnalogClock rt (PInt (launch_size cfg)) (\<not> arg_hide_seconds a)
                     (PStr (launch_layer cfg)) (PStr (launch_mode cfg))
                     (PStr (launch_theme cfg)) (PStr (launch_font cfg)) of
                Inl err \<Rightarrow> Inl err
              | Inr clock \<Rightarrow>
                 (case restore_position rt e (arg_x a) (arg_y a) saved_state clock of
                    Inl err \<Rightarrow> Inl err
                  | Inr clock1 \<Rightarrow>
                      Inr (set_layer (PStr (launch_layer cfg)) False True
                             (clock1\<lparr>win_visible := True\<rparr>))))))"

section \<open>The state invariant\<close>

text \<open>
  What the constructor establishes and every method keeps: the size is within its bounds,
  the mode is one of the two modes, the accumulated time is not negative, the stopwatch
  runs in stopwatch mode only, and the click threshold is 6.
\<close>

definition widget_inv :: "widget \<Rightarrow> bool" where
  "widget_inv w =
     (MIN_CLOCK_SIZE \<le> clock_size w \<and> clock_size w \<le> MAX_CLOCK_SIZE
      \<and> (mode w = MODE_CLOCK \<or> mode w = MODE_STOPWATCH)
      \<and> 0 \<le> stopwatch_elapsed_ms w
      \<and> (stopwatch_running w \<longrightarrow> mode w = MODE_STOPWATCH)
      \<and> click_threshold_px w = 6)"

section \<open>Formatting the elapsed time\<close>

text \<open>
  The format specification \<^verbatim>\<open>02\<close> (or \<^verbatim>\<open>03\<close>) writes an integer in decimal, the sign
  first, and fills with zeros up to the width; a longer number is never cut.
\<close>

definition digit_char :: "nat \<Rightarrow> char" where
  "digit_char d =
     (if d = 0 then CHR ''0'' else if d = 1 then CHR ''1'' else if d = 2 then CHR ''2''
      else if d = 3 then CHR ''3'' else if d = 4 then CHR ''4'' else if d = 5 then CHR ''5''
      else if d = 6 then CHR ''6'' else if d = 7 then CHR ''7'' else if d = 8 then CHR ''8''
      else CHR ''9'')"

fun digits :: "nat \<Rightarrow> string" where
  "digits n = (if n < 10 then [digit_char n] else digits (n div 10) @ [digit_char (n mod 10)])"

definition zero_fill :: "nat \<Rightarrow> string \<Rightarrow> string" where
  "zero_fill width s = replicate (width - length s) (CHR ''0'') @ s"

definition format_zero_padded :: "nat \<Rightarrow> int \<Rightarrow> string" where
  "format_zero_padded width n =
     (if n < 0 then CHR ''-'' # zero_fill (width - 1) (digits (nat (- n)))
      else zero_fill width (digits (nat n)))"

definition format_stopwatch_elapsed :: "int \<Rightarrow> string" where
  "format_stopwatch_elapsed elapsed_ms =
     (let hours = elapsed_ms div 3600000;
          minutes = (elapsed_ms div 60000) mod 60;
          seconds = (elapsed_ms div 1000) mod 60;
          millis = elapsed_ms mod 1000
      in if hours > 0
         then format_zero_padded 2 hours @ '':'' @ format_zero_padded 2 minutes @ '':''
              @ format_zero_padded 2 seconds @ ''.'' @ format_zero_padded 3 millis
         else format_zero_padded 2 minutes @ '':'' @ format_zero_padded 2 seconds @ ''.''
              @ format_zero_padded 3 millis)"

section \<open>Reading a formatted field back\<close>

definition is_digit :: "char \<Rightarrow> bool" where
  "is_digit c = (48 \<le> (of_char c :: nat) \<and> (of_char c :: nat) \<le> 57)"

definition decimal_value :: "string \<Rightarrow> nat" where
  "decimal_value s = foldl (\<lambda>acc c. 10 * acc + (of_char c - 48)) 0 s"

section \<open>A concrete runtime for evaluation\<close>

text \<open>
  An instance of the library parameters, used to run the model on concrete inputs: signed
  ASCII decimals for \<^verbatim>\<open>int\<close>, blanks for \<^verbatim>\<open>strip\<close>.
\<close>

definition ascii_int :: "string \<Rightarrow> int option" where
  "ascii_int s =
     (case s of
        [] \<Rightarrow> None
      | c # cs \<Rightarrow>
          if c = CHR ''-''
          then (if cs \<noteq> [] \<and> list_all is_digit cs then Some (- int (decimal_value cs)) else None)
          else (if list_all is_digit s then Some (int (decimal_value s)) else None))"

definition strip_blanks :: "string \<Rightarrow> string" where
  "strip_blanks s =
     rev (dropWhile (\<lambda>c. c = CHR '' '') (rev (dropWhile (\<lambda>c. c = CHR '' '') s)))"

definition plain_runtime :: runtime where
  "plain_runtime = \<lparr>int_of_str = ascii_int, str_strip = strip_blanks\<rparr>"

section \<open>Sample states for evaluation\<close>

text \<open>
  The widget that the constructor builds from the default settings, and a desktop with a
  primary screen and a second screen to its right, the cursor being on the second one and
  the window not yet created.
\<close>

definition sample_clock :: widget where
  "sample_clock =
     \<lparr>clock_size = 220, readout_height = 55, layer = ''top'', show_seconds = True,
      mode = ''clock'', color_theme = ''midnight'', readout_font_family = ''Monospace'',
      stopwatch_running = False, stopwatch_elapsed_ms = 0, stopwatch_start_time = 0,
      drag_offset = None, press_global_pos = None, drag_started = False,
      click_threshold_px = 6, win_x = 0, win_y = 0, win_width = 220, win_height = 220,
      win_visible = False, stays_on_top = True, stays_on_bottom = False,
      timer_interval = 1000, writes = []\<rparr>"

definition two_screens :: env where
  "two_screens =
     \<lparr>screens = [\<lparr>rect_left = 0, rect_top = 0, rect_width = 1920, rect_height = 1080\<rparr>,
                 \<lparr>rect_left = 1920, rect_top = 0, rect_width = 1920, rect_height = 1080\<rparr>],
      cursor_pos = (2500, 500), windowHandle = None\<rparr>"

text \<open>A command line without options.\<close>

definition no_args :: args where
  "no_args =
     \<lparr>arg_size = None, arg_hide_seconds = False, arg_mode = None, arg_layer = None,
      arg_theme = None, arg_readout_font = None, arg_x = None, arg_y = None\<rparr>"

text \<open>A stopwatch that was started at 10 s.\<close>

definition sample_running :: widget where
  "sample_running =
     toggle_stopwatch_running 10
       (set_mode 5 (PStr MODE_STOPWATCH) False sample_clock)"



section \<open>Basic facts\<close>

lemmas consts_defs =
  MODE_CLOCK_def MODE_STOPWATCH_def DEFAULT_MODE_def LAYER_TOP_def LAYER_NORMAL_def
  LAYER_BOTTOM_def DEFAULT_LAYER_def MIN_CLOCK_SIZE_def MAX_CLOCK_SIZE_def
  DEFAULT_CLOCK_SIZE_def THEME_PRESETS_def DEFAULT_THEME_def DEFAULT_READOUT_FONT_def

lemmas plain_defs =
  plain_runtime_def ascii_int_def is_digit_def decimal_value_def strip_blanks_def
  trunc_rat_def

lemma sample_clock_constructed:
  "FloatingAnalogClock plain_runtime (PInt 220) True (PStr ''top'') (PStr ''clock'')
     (PStr ''midnight'') (PStr ''Monospace'') = Inr sample_clock"
  by (simp add: FloatingAnalogClock_def valid_size_def valid_theme_def consts_defs plain_defs
      update_refresh_timer_def apply_window_size_def set_window_flags_def sample_clock_def)

lemma valid_size_range:
  "valid_size rt v = Inr n \<Longrightarrow> MIN_CLOCK_SIZE \<le> n \<and> n \<le> MAX_CLOCK_SIZE"
  by (auto simp: valid_size_def MIN_CLOCK_SIZE_def MAX_CLOCK_SIZE_def split: sum.splits if_splits)

lemma valid_size_total: "\<not> is_infinite v \<Longrightarrow> \<exists>n. valid_size rt v = Inr n"
  by (cases "(rt, v)" rule: py_int.cases) (auto simp: valid_size_def split: option.splits)

lemma valid_size_infinite: "is_infinite v \<Longrightarrow> valid_size rt v = Inl OverflowError"
  by (cases v rule: is_infinite.cases) (auto simp: valid_size_def)

lemma valid_theme_total: "hashable v \<Longrightarrow> \<exists>t. valid_theme v = Inr t"
  by (cases v) (auto simp: valid_theme_def)

lemma clock_size_save_state [simp]: "clock_size (save_state w) = clock_size w"
  by (simp add: save_state_def)

lemma clock_size_move [simp]: "clock_size (move p w) = clock_size w"
  by (simp add: move_def)

lemma clock_size_center_on_screen [simp]: "clock_size (center_on_screen e w) = clock_size w"
  by (simp add: center_on_screen_def split: option.splits)

lemma clock_size_apply_window_size [simp]: "clock_size (apply_window_size w) = clock_size w"
  by (simp add: apply_window_size_def Let_def)

lemma clock_size_update_refresh_timer [simp]:
  "clock_size (update_refresh_timer w) = clock_size w"
  by (simp add: update_refresh_timer_def Let_def)

lemma clock_size_set_window_flags [simp]: "clock_size (set_window_flags l w) = clock_size w"
  by (simp add: set_window_flags_def)

lemma resize_about_center_keeps:
  "clock_size (resize_about_center n w) = n"
  "writes (resize_about_center n w) = writes w"
  "mode (resize_about_center n w) = mode w"
  "stopwatch_elapsed_ms (resize_about_center n w) = stopwatch_elapsed_ms w"
  "stopwatch_running (resize_about_center n w) = stopwatch_running w"
  "click_threshold_px (resize_about_center n w) = click_threshold_px w"
  by (simp_all add: resize_about_center_def move_def apply_window_size_def Let_def)

lemma set_clock_size_unchanged:
  "valid_size rt v = Inr (clock_size w) \<Longrightarrow> set_clock_size rt e v p w = Inr w"
  by (simp add: set_clock_size_def)

lemma set_clock_size_changed:
  assumes "valid_size rt v = Inr n" and "n \<noteq> clock_size w"
  shows "set_clock_size rt e v p w =
           Inr (let w4 = resize_about_center n w;
                    w5 = (if \<not> is_on_any_screen e w4 then center_on_screen e w4 else w4)
                in if p then save_state w5 else w5)"
  using assms by (simp add: set_clock_size_def Let_def)

lemma set_clock_size_result:
  assumes "set_clock_size rt e v persist w = Inr w'"
  shows "valid_size rt v = Inr (clock_size w')"
proof (cases "valid_size rt v")
  case (Inl err)
  then show ?thesis using assms by (simp add: set_clock_size_def)
next
  case (Inr n)
  show ?thesis
  proof (cases "n = clock_size w")
    case True
    then show ?thesis using Inr assms by (simp add: set_clock_size_def)
  next
    case False
    have "clock_size w' = n"
      using assms set_clock_size_changed [OF Inr False, of e persist]
      by (auto simp: Let_def resize_about_center_keeps)
    then show ?thesis using Inr by simp
  qed
qed

lemma constructor_size:
  "FloatingAnalogClock rt v ss l m th f = Inr w' \<Longrightarrow> valid_size rt v = Inr (clock_size w')"
  by (auto simp: FloatingAnalogClock_def split: sum.splits)

section \<open>The size stays within its bounds\<close>

text \<open>
  For every size input other than a float infinity, \<^verbatim>\<open>set_clock_size\<close> returns and
  leaves a stored size between 120 and 640; so does the constructor, given a theme value
  that can be hashed.
\<close>

lemma set_clock_size_in_range:
  assumes "\<not> is_infinite s"
  shows "(\<exists>w'. set_clock_size rt e s persist w = Inr w'
              \<and> 120 \<le> clock_size w' \<and> clock_size w' \<le> 640)
       \<and> (hashable th \<longrightarrow>
            (\<exists>w'. FloatingAnalogClock rt s ss l m th f = Inr w'
                 \<and> 120 \<le> clock_size w' \<and> clock_size w' \<le> 640))"
proof
  obtain n where n: "valid_size rt s = Inr n"
    using assms valid_size_total by blast
  then have "\<exists>w'. set_clock_size rt e s persist w = Inr w'"
    by (simp add: set_clock_size_def Let_def)
  then obtain w' where w': "set_clock_size rt e s persist w = Inr w'"
    by blast
  from set_clock_size_result [OF w'] valid_size_range [of rt s]
  have "120 \<le> clock_size w' \<and> clock_size w' \<le> 640"
    by (simp add: MIN_CLOCK_SIZE_def MAX_CLOCK_SIZE_def)
  with w' show "\<exists>w'. set_clock_size rt e s persist w = Inr w'
              \<and> 120 \<le> clock_size w' \<and> clock_size w' \<le> 640"
    by blast
  show "hashable th \<longrightarrow>
            (\<exists>w'. FloatingAnalogClock rt s ss l m th f = Inr w'
                 \<and> 120 \<le> clock_size w' \<and> clock_size w' \<le> 640)"
  proof
    assume "hashable th"
    then obtain t where "valid_theme th = Inr t"
      using valid_theme_total by blast
    with n have "\<exists>c. FloatingAnalogClock rt s ss l m th f = Inr c"
      by (simp add: FloatingAnalogClock_def)
    then obtain c where c: "FloatingAnalogClock rt s ss l m th f = Inr c"
      by blast
    from constructor_size [OF c] valid_size_range [of rt s]
    have "120 \<le> clock_size c \<and> clock_size c \<le> 640"
      by (simp add: MIN_CLOCK_SIZE_def MAX_CLOCK_SIZE_def)
    with c show "\<exists>w'. FloatingAnalogClock rt s ss l m th f = Inr w'
                 \<and> 120 \<le> clock_size w' \<and> clock_size w' \<le> 640"
      by blast
  qed
qed

text \<open>
  Claim C5. The size is meant to lie between 120 and 640 after every input, but a float
  infinity is not normalised: \<^verbatim>\<open>int\<close> raises \<^verbatim>\<open>OverflowError\<close>, which the normaliser
  does not catch. A state file whose size is \<^verbatim>\<open>Infinity\<close> therefore ends the start-up
  with that error instead of a widget of the default size, and the mutator and the
  constructor raise it as well.
\<close>

theorem infinite_size_raises:
  "main_startup plain_runtime two_screens no_args
     (Parsed (PDict [(''size'', PFloat PosInf)])) = Inl OverflowError
   \<and> set_clock_size plain_runtime two_screens (PFloat PosInf) True sample_clock
       = Inl OverflowError
   \<and> FloatingAnalogClock plain_runtime (PFloat PosInf) True (PStr ''top'') (PStr ''clock'')
       (PStr ''midnight'') (PStr ''Monospace'') = Inl OverflowError"
  by (simp add: main_startup_def launch_settings_def no_args_def dict_get_def
      set_clock_size_def FloatingAnalogClock_def valid_size_def)

section \<open>An unparsable size gives the default\<close>

text \<open>
  Claim C10. When the size is \<^verbatim>\<open>None\<close> or a string that \<^verbatim>\<open>int\<close> rejects, the size
  normaliser returns the default 220, which lies strictly between the two bounds, and a
  widget constructed from such a size is 220 pixels wide.
\<close>

theorem valid_size_unparsable_default:
  assumes "v = PNone \<or> (\<exists>s. v = PStr s \<and> int_of_str rt s = None)"
  shows "valid_size rt v = Inr 220 \<and> MIN_CLOCK_SIZE < 220 \<and> 220 < MAX_CLOCK_SIZE
       \<and> (\<forall>w. FloatingAnalogClock rt v ss l m th f = Inr w \<longrightarrow> clock_size w = 220)"
proof -
  have "valid_size rt v = Inr 220"
    using assms by (auto simp: valid_size_def consts_defs)
  then show ?thesis
    by (auto simp: consts_defs dest: constructor_size)
qed

text \<open>Claim C10 at the string \<^verbatim>\<open>"large"\<close>.\<close>

theorem valid_size_unparsable_default_witness:
  "int_of_str plain_runtime ''large'' = None
   \<and> valid_size plain_runtime (PStr ''large'') = Inr 220
   \<and> FloatingAnalogClock plain_runtime (PStr ''large'') True (PStr ''top'') (PStr ''clock'')
       (PStr ''midnight'') (PStr ''Monospace'') = Inr sample_clock"
proof -
  have h: "int_of_str plain_runtime ''large'' = None"
    by (simp add: plain_defs)
  then have "PStr ''large'' = PNone
      \<or> (\<exists>s. PStr ''large'' = PStr s \<and> int_of_str plain_runtime s = None)"
    by simp
  from valid_size_unparsable_default [OF this, of True "PStr ''top''" "PStr ''clock''"
      "PStr ''midnight''" "PStr ''Monospace''"]
  have v: "valid_size plain_runtime (PStr ''large'') = Inr 220"
    by simp
  have "FloatingAnalogClock plain_runtime (PStr ''large'') True (PStr ''top'') (PStr ''clock'')
       (PStr ''midnight'') (PStr ''Monospace'') = Inr sample_clock"
    unfolding FloatingAnalogClock_def v
    by (simp add: valid_theme_def consts_defs plain_defs
      update_refresh_timer_def apply_window_size_def set_window_flags_def sample_clock_def)
  with h v show ?thesis by simp
qed

section \<open>The elapsed-time readout\<close>

lemma digit_char_code: "d < 10 \<Longrightarrow> (of_char (digit_char d) :: nat) = 48 + d"
proof -
  assume "d < 10"
  then have "d = 0 \<or> d = 1 \<or> d = 2 \<or> d = 3 \<or> d = 4 \<or> d = 5 \<or> d = 6 \<or> d = 7 \<or> d = 8 \<or> d = 9"
    by arith
  then show ?thesis
    by (elim disjE) (simp_all add: digit_char_def)
qed

lemma is_digit_digit_char: "d < 10 \<Longrightarrow> is_digit (digit_char d)"
  by (simp add: is_digit_def digit_char_code)

lemma decimal_value_snoc: "decimal_value (s @ [c]) = 10 * decimal_value s + (of_char c - 48)"
  by (simp add: decimal_value_def)

lemma decimal_value_digits: "decimal_value (digits n) = n"
proof (induction n rule: digits.induct)
  case (1 n)
  show ?case
  proof (cases "n < 10")
    case True
    then show ?thesis by (simp add: decimal_value_def digit_char_code)
  next
    case False
    then have "digits n = digits (n div 10) @ [digit_char (n mod 10)]"
      by simp
    then have "decimal_value (digits n) = 10 * (n div 10) + n mod 10"
      using 1 False by (simp add: decimal_value_snoc digit_char_code del: digits.simps)
    then show ?thesis by simp
  qed
qed

lemma digits_all_digits: "list_all is_digit (digits n)"
proof (induction n rule: digits.induct)
  case (1 n)
  then show ?case
    by (cases "n < 10") (simp_all add: is_digit_digit_char)
qed

lemma length_digits_10: "n < 10 \<Longrightarrow> length (digits n) = 1"
  by simp

lemma length_digits_100: "n < 100 \<Longrightarrow> length (digits n) \<le> 2"
  by (cases "n < 10") (simp_all add: length_digits_10 del: digits.simps add: digits.simps [of n])

lemma length_digits_1000: "n < 1000 \<Longrightarrow> length (digits n) \<le> 3"
proof (cases "n < 10")
  case True
  then show ?thesis by simp
next
  case False
  assume "n < 1000"
  then have "n div 10 < 100" by simp
  then have "length (digits (n div 10)) \<le> 2" by (rule length_digits_100)
  moreover have "digits n = digits (n div 10) @ [digit_char (n mod 10)]"
    using False by simp
  ultimately show ?thesis by (simp del: digits.simps)
qed

lemma length_digits_pos: "1 \<le> length (digits n)"
  by (cases "n < 10") (simp_all del: digits.simps add: digits.simps [of n])

lemma decimal_value_zero_fill: "decimal_value (zero_fill k s) = decimal_value s"
proof -
  have "foldl (\<lambda>acc c. 10 * acc + (of_char c - 48)) 0 (replicate j (CHR ''0'')) = (0::nat)" for j
    by (induction j) simp_all
  then show ?thesis
    by (simp add: zero_fill_def decimal_value_def)
qed

lemma all_digits_zero_fill: "list_all is_digit s \<Longrightarrow> list_all is_digit (zero_fill k s)"
  by (auto simp: zero_fill_def list_all_iff is_digit_def)

lemma length_zero_fill: "length (zero_fill k s) = max k (length s)"
  by (simp add: zero_fill_def)

lemma padded_value: "0 \<le> n \<Longrightarrow> int (decimal_value (format_zero_padded k n)) = n"
  by (simp add: format_zero_padded_def decimal_value_zero_fill decimal_value_digits del: digits.simps)

lemma padded_digits: "0 \<le> n \<Longrightarrow> list_all is_digit (format_zero_padded k n)"
  by (simp add: format_zero_padded_def all_digits_zero_fill digits_all_digits del: digits.simps)

lemma padded_length_2: "0 \<le> n \<Longrightarrow> n < 100 \<Longrightarrow> length (format_zero_padded 2 n) = 2"
proof -
  assume "0 \<le> n" "n < 100"
  then have "length (digits (nat n)) \<le> 2" by (intro length_digits_100) simp
  then show ?thesis using \<open>0 \<le> n\<close>
    by (simp add: format_zero_padded_def length_zero_fill del: digits.simps)
qed

lemma padded_length_3: "0 \<le> n \<Longrightarrow> n < 1000 \<Longrightarrow> length (format_zero_padded 3 n) = 3"
proof -
  assume "0 \<le> n" "n < 1000"
  then have "length (digits (nat n)) \<le> 3" by (intro length_digits_1000) simp
  then show ?thesis using \<open>0 \<le> n\<close>
    by (simp add: format_zero_padded_def length_zero_fill del: digits.simps)
qed

lemma padded_length_ge: "0 \<le> n \<Longrightarrow> k \<le> length (format_zero_padded k n)"
  by (simp add: format_zero_padded_def length_zero_fill del: digits.simps)

lemma length_digits_ge3: "100 \<le> n \<Longrightarrow> 3 \<le> length (digits n)"
proof -
  assume "100 \<le> n"
  then have a: "\<not> n < 10" and b: "\<not> n div 10 < 10" by simp_all
  have "digits n = digits (n div 10) @ [digit_char (n mod 10)]"
    using a by (simp add: digits.simps [of n] del: digits.simps)
  moreover have "digits (n div 10) = digits (n div 10 div 10) @ [digit_char (n div 10 mod 10)]"
    using b by (simp add: digits.simps [of "n div 10"] del: digits.simps)
  ultimately have "length (digits n) = length (digits (n div 10 div 10)) + 2"
    by (simp del: digits.simps)
  then show ?thesis
    using length_digits_pos [of "n div 10 div 10"] by simp
qed

lemma digit_char_nonzero: "0 < d \<Longrightarrow> d < 10 \<Longrightarrow> digit_char d \<noteq> CHR ''0''"
proof
  assume "0 < d" "d < 10" "digit_char d = CHR ''0''"
  then have "(of_char (CHR ''0'') :: nat) = 48 + d"
    using digit_char_code [of d] by simp
  then show False using \<open>0 < d\<close> by simp
qed

lemma hd_digits: "0 < n \<Longrightarrow> hd (digits n) \<noteq> CHR ''0''"
proof (induction n rule: digits.induct)
  case (1 n)
  show ?case
  proof (cases "n < 10")
    case True
    then show ?thesis using "1.prems" by (simp add: digit_char_nonzero)
  next
    case False
    then have d: "digits n = digits (n div 10) @ [digit_char (n mod 10)]"
      by (simp add: digits.simps [of n] del: digits.simps)
    have ne: "digits (n div 10) \<noteq> []"
      using length_digits_pos [of "n div 10"] by (auto simp del: digits.simps)
    have "0 < n div 10" using False by simp
    then have "hd (digits (n div 10)) \<noteq> CHR ''0''"
      using "1.IH" False by simp
    then show ?thesis
      using d ne by (simp del: digits.simps)
  qed
qed

lemma padded_wide: "100 \<le> n \<Longrightarrow> format_zero_padded 2 n = digits (nat n)"
proof -
  assume h: "100 \<le> n"
  then have "3 \<le> length (digits (nat n))" by (intro length_digits_ge3) simp
  then show ?thesis using h
    by (simp add: format_zero_padded_def zero_fill_def del: digits.simps)
qed

text \<open>
  Claim C7, amended. For every elapsed time that is not negative, the formatter returns
  the hours field followed by a colon exactly when the whole hours are positive, then the
  minutes, a colon, the seconds, a full stop and the milliseconds. Every field consists
  of decimal digits only; minutes and seconds have two characters and milliseconds three,
  filled with zeros. The hours field has at least two characters: exactly two below 100
  hours, and from 100 hours on the decimal number itself, three or more digits without a
  leading zero. Read back as numbers the fields are the quotients and remainders of
  integer division, so that they add up to the elapsed time again: nothing is rounded.
\<close>

theorem format_stopwatch_elapsed_fields:
  fixes elapsed_ms :: int
  assumes "0 \<le> elapsed_ms"
  defines "H \<equiv> format_zero_padded 2 (elapsed_ms div 3600000)"
    and "M \<equiv> format_zero_padded 2 ((elapsed_ms div 60000) mod 60)"
    and "S \<equiv> format_zero_padded 2 ((elapsed_ms div 1000) mod 60)"
    and "F \<equiv> format_zero_padded 3 (elapsed_ms mod 1000)"
  shows "format_stopwatch_elapsed elapsed_ms =
           (if elapsed_ms div 3600000 > 0 then H @ '':'' @ M @ '':'' @ S @ ''.'' @ F
            else M @ '':'' @ S @ ''.'' @ F)
       \<and> list_all is_digit H \<and> list_all is_digit M \<and> list_all is_digit S \<and> list_all is_digit F
       \<and> 2 \<le> length H \<and> (elapsed_ms < 360000000 \<longrightarrow> length H = 2)
       \<and> (360000000 \<le> elapsed_ms \<longrightarrow>
            H = digits (nat (elapsed_ms div 3600000)) \<and> 3 \<le> length H \<and> hd H \<noteq> CHR ''0'')
       \<and> length M = 2 \<and> length S = 2 \<and> length F = 3
       \<and> int (decimal_value H) = elapsed_ms div 3600000
       \<and> int (decimal_value M) = (elapsed_ms div 60000) mod 60
       \<and> int (decimal_value S) = (elapsed_ms div 1000) mod 60
       \<and> int (decimal_value F) = elapsed_ms mod 1000
       \<and> ((int (decimal_value H) * 60 + int (decimal_value M)) * 60 + int (decimal_value S)) * 1000
           + int (decimal_value F) = elapsed_ms"
proof -
  have h0: "0 \<le> elapsed_ms div 3600000" using assms(1) by simp
  have m0: "0 \<le> (elapsed_ms div 60000) mod 60" "(elapsed_ms div 60000) mod 60 < 100"
    by (simp, rule less_trans [of _ 60], simp_all)
  have s0: "0 \<le> (elapsed_ms div 1000) mod 60" "(elapsed_ms div 1000) mod 60 < 100"
    by (simp, rule less_trans [of _ 60], simp_all)
  have f0: "0 \<le> elapsed_ms mod 1000" "elapsed_ms mod 1000 < 1000"
    by simp_all
  have shape: "format_stopwatch_elapsed elapsed_ms =
           (if elapsed_ms div 3600000 > 0 then H @ '':'' @ M @ '':'' @ S @ ''.'' @ F
            else M @ '':'' @ S @ ''.'' @ F)"
    by (simp add: format_stopwatch_elapsed_def Let_def H_def M_def S_def F_def)
  have dig: "list_all is_digit H" "list_all is_digit M" "list_all is_digit S" "list_all is_digit F"
    unfolding H_def M_def S_def F_def
    using h0 m0 s0 f0 by (simp_all only: padded_digits)
  have lens: "2 \<le> length H" "length M = 2" "length S = 2" "length F = 3"
    unfolding H_def M_def S_def F_def
    using h0 m0 s0 f0 by (simp_all only: padded_length_ge padded_length_2 padded_length_3)
  have lenH: "elapsed_ms < 360000000 \<longrightarrow> length H = 2"
  proof
    assume "elapsed_ms < 360000000"
    then have "elapsed_ms div 3600000 < 100" by simp
    with h0 show "length H = 2" unfolding H_def by (rule padded_length_2)
  qed
  have wide: "360000000 \<le> elapsed_ms \<longrightarrow>
            H = digits (nat (elapsed_ms div 3600000)) \<and> 3 \<le> length H \<and> hd H \<noteq> CHR ''0''"
  proof
    assume "360000000 \<le> elapsed_ms"
    then have h: "100 \<le> elapsed_ms div 3600000" by simp
    then have e: "H = digits (nat (elapsed_ms div 3600000))"
      unfolding H_def by (rule padded_wide)
    have "3 \<le> length (digits (nat (elapsed_ms div 3600000)))"
      using h by (intro length_digits_ge3) simp
    moreover have "hd (digits (nat (elapsed_ms div 3600000))) \<noteq> CHR ''0''"
      using h by (intro hd_digits) simp
    ultimately show "H = digits (nat (elapsed_ms div 3600000)) \<and> 3 \<le> length H
        \<and> hd H \<noteq> CHR ''0''"
      using e by (simp del: digits.simps)
  qed
  have vals: "int (decimal_value H) = elapsed_ms div 3600000"
    "int (decimal_value M) = (elapsed_ms div 60000) mod 60"
    "int (decimal_value S) = (elapsed_ms div 1000) mod 60"
    "int (decimal_value F) = elapsed_ms mod 1000"
    unfolding H_def M_def S_def F_def
    using h0 m0 s0 f0 by (simp_all only: padded_value)
  have d1: "elapsed_ms div 60000 = (elapsed_ms div 1000) div 60"
    by (simp add: div_mult2_eq [symmetric])
  have d2: "elapsed_ms div 3600000 = ((elapsed_ms div 1000) div 60) div 60"
    by (simp add: div_mult2_eq [symmetric])
  have total: "((elapsed_ms div 3600000 * 60 + (elapsed_ms div 60000) mod 60) * 60
      + (elapsed_ms div 1000) mod 60) * 1000 + elapsed_ms mod 1000 = elapsed_ms"
    unfolding d1 d2 by (simp add: mult.commute)
  show ?thesis
    using shape dig lens lenH wide vals total by (simp only: simp_thms)
qed

text \<open>Claim C7, amended, at 1 h 2 min 3.045 s.\<close>

theorem format_stopwatch_elapsed_fields_witness:
  "(0::int) \<le> 3723045 \<and> format_stopwatch_elapsed 3723045 = ''01:02:03.045''"
  using format_stopwatch_elapsed_fields [of 3723045]
  by (simp add: format_zero_padded_def zero_fill_def digit_char_def)

text \<open>
  Claim C7 as stated fails at 100 hours: the hours field has three characters, so the
  result is longer than \<^verbatim>\<open>HH:MM:SS.mmm\<close>.
\<close>

theorem format_stopwatch_elapsed_hundred_hours_counterexample:
  "format_stopwatch_elapsed 360000000 = ''100:00:00.000''
   \<and> length (format_stopwatch_elapsed 360000000) \<noteq> length ''HH:MM:SS.mmm''"
proof -
  have r: "replicate 2 (CHR ''0'') = ''00''"
    by (simp add: numeral_2_eq_2)
  show ?thesis
    by (simp add: format_stopwatch_elapsed_def format_zero_padded_def zero_fill_def
        digit_char_def r)
qed

section \<open>Modes\<close>

lemma valid_mode_cases: "valid_mode m = MODE_CLOCK \<or> valid_mode m = MODE_STOPWATCH"
  by (cases m) (auto simp: DEFAULT_MODE_def)

lemma valid_mode_not_stopwatch:
  "m \<noteq> PStr MODE_STOPWATCH \<Longrightarrow> valid_mode m = MODE_CLOCK"
  by (cases m) (auto simp: DEFAULT_MODE_def)

lemma current_stopwatch_ms_nonneg:
  "0 \<le> stopwatch_elapsed_ms w \<Longrightarrow> 0 \<le> current_stopwatch_ms now w"
  by (simp add: current_stopwatch_ms_def Let_def)

section \<open>The invariant holds in every state\<close>

lemma widget_inv_constructor:
  "FloatingAnalogClock rt v ss l m th f = Inr w \<Longrightarrow> widget_inv w"
  using valid_mode_cases [of m] valid_size_range [of rt v]
  by (auto simp: FloatingAnalogClock_def widget_inv_def update_refresh_timer_def
      apply_window_size_def set_window_flags_def Let_def split: sum.splits)

lemma widget_inv_save_state: "widget_inv w \<Longrightarrow> widget_inv (save_state w)"
  by (simp add: widget_inv_def save_state_def)

lemma widget_inv_move: "widget_inv w \<Longrightarrow> widget_inv (move p w)"
  by (simp add: widget_inv_def move_def)

lemma widget_inv_show: "widget_inv w \<Longrightarrow> widget_inv (w\<lparr>win_visible := b\<rparr>)"
  by (simp add: widget_inv_def)

lemma widget_inv_center_on_screen: "widget_inv w \<Longrightarrow> widget_inv (center_on_screen e w)"
  by (simp add: center_on_screen_def widget_inv_save_state widget_inv_move split: option.splits)

lemma widget_inv_restore_position:
  "widget_inv w \<Longrightarrow> restore_position rt e cx cy st w = Inr w' \<Longrightarrow> widget_inv w'"
  by (auto simp: restore_position_def Let_def widget_inv_center_on_screen widget_inv_move
      split: option.splits sum.splits if_splits)

lemma widget_inv_update_refresh_timer:
  "widget_inv w \<Longrightarrow> widget_inv (update_refresh_timer w)"
  by (simp add: widget_inv_def update_refresh_timer_def Let_def)

lemma widget_inv_apply_window_size:
  "widget_inv w \<Longrightarrow> widget_inv (apply_window_size w)"
  by (simp add: widget_inv_def apply_window_size_def Let_def)

lemma widget_inv_toggle:
  "widget_inv w \<Longrightarrow> widget_inv (toggle_stopwatch_running now w)"
  by (auto simp: toggle_stopwatch_running_def widget_inv_def update_refresh_timer_def Let_def
      current_stopwatch_ms_nonneg)

lemma widget_inv_reset: "widget_inv w \<Longrightarrow> widget_inv (reset_stopwatch now w)"
  by (simp add: reset_stopwatch_def widget_inv_def Let_def)

lemma widget_inv_set_mode: "widget_inv w \<Longrightarrow> widget_inv (set_mode now m p w)"
  using valid_mode_cases [of m]
  by (auto simp: set_mode_def widget_inv_def update_refresh_timer_def apply_window_size_def
      save_state_def Let_def current_stopwatch_ms_nonneg)

lemma widget_inv_set_layer: "widget_inv w \<Longrightarrow> widget_inv (set_layer l p f w)"
  by (simp add: set_layer_def widget_inv_def set_window_flags_def save_state_def Let_def)

lemma center_on_screen_keeps:
  "mode (center_on_screen e w) = mode w"
  "stopwatch_elapsed_ms (center_on_screen e w) = stopwatch_elapsed_ms w"
  "stopwatch_running (center_on_screen e w) = stopwatch_running w"
  "click_threshold_px (center_on_screen e w) = click_threshold_px w"
  by (simp_all add: center_on_screen_def save_state_def move_def split: option.splits)

lemma save_state_keeps:
  "mode (save_state w) = mode w"
  "stopwatch_elapsed_ms (save_state w) = stopwatch_elapsed_ms w"
  "stopwatch_running (save_state w) = stopwatch_running w"
  "click_threshold_px (save_state w) = click_threshold_px w"
  by (simp_all add: save_state_def)

lemma widget_inv_set_clock_size:
  assumes "widget_inv w" and "set_clock_size rt e v p w = Inr w'"
  shows "widget_inv w'"
proof (cases "valid_size rt v = Inr (clock_size w)")
  case True
  then have "w' = w" using assms(2) by (simp add: set_clock_size_unchanged)
  then show ?thesis using assms(1) by simp
next
  case False
  have vs: "valid_size rt v = Inr (clock_size w')"
    using assms(2) by (rule set_clock_size_result)
  then have size: "MIN_CLOCK_SIZE \<le> clock_size w' \<and> clock_size w' \<le> MAX_CLOCK_SIZE"
    by (rule valid_size_range)
  from vs False have ne: "clock_size w' \<noteq> clock_size w" by auto
  define w4 where "w4 = resize_about_center (clock_size w') w"
  define w5 where "w5 = (if \<not> is_on_any_screen e w4 then center_on_screen e w4 else w4)"
  have "Inr w' =
      (Inr (let w4 = resize_about_center (clock_size w') w;
                w5 = (if \<not> is_on_any_screen e w4 then center_on_screen e w4 else w4)
            in if p then save_state w5 else w5) :: pyerr + widget)"
    by (rule trans [OF assms(2) [symmetric] set_clock_size_changed [OF vs ne]])
  then have "w' = (if p then save_state w5 else w5)"
    unfolding w4_def w5_def Let_def by (simp only: sum.inject)
  moreover have "mode w4 = mode w \<and> stopwatch_elapsed_ms w4 = stopwatch_elapsed_ms w
      \<and> stopwatch_running w4 = stopwatch_running w \<and> click_threshold_px w4 = click_threshold_px w"
    by (simp add: w4_def resize_about_center_keeps)
  then have "mode w5 = mode w \<and> stopwatch_elapsed_ms w5 = stopwatch_elapsed_ms w
      \<and> stopwatch_running w5 = stopwatch_running w \<and> click_threshold_px w5 = click_threshold_px w"
    by (simp add: w5_def center_on_screen_keeps)
  ultimately have rest: "mode w' = mode w \<and> stopwatch_elapsed_ms w' = stopwatch_elapsed_ms w
      \<and> stopwatch_running w' = stopwatch_running w \<and> click_threshold_px w' = click_threshold_px w"
    by (simp add: save_state_keeps)
  show ?thesis
    using assms(1) size rest by (simp add: widget_inv_def)
qed

lemma widget_inv_set_color_theme:
  "widget_inv w \<Longrightarrow> set_color_theme th p w = Inr w' \<Longrightarrow> widget_inv w'"
  by (auto simp: set_color_theme_def widget_inv_def save_state_def Let_def
      split: sum.splits if_splits)

lemma widget_inv_set_readout_font:
  "widget_inv w \<Longrightarrow> widget_inv (set_readout_font rt f p w)"
  by (simp add: set_readout_font_def widget_inv_def save_state_def Let_def)

lemma widget_inv_mousePressEvent: "widget_inv w \<Longrightarrow> widget_inv (mousePressEvent e ev w)"
  by (auto simp: mousePressEvent_def widget_inv_def Let_def)

lemma widget_inv_mouseMoveEvent: "widget_inv w \<Longrightarrow> widget_inv (mouseMoveEvent ev w)"
  by (simp add: mouseMoveEvent_def widget_inv_def move_def Let_def split: option.splits)

lemma widget_inv_mouseReleaseEvent:
  "widget_inv w \<Longrightarrow> widget_inv (mouseReleaseEvent now ev w)"
proof -
  assume w: "widget_inv w"
  have a: "widget_inv x \<Longrightarrow>
      widget_inv (x\<lparr>drag_offset := None, press_global_pos := None, drag_started := False\<rparr>)" for x
    by (simp add: widget_inv_def)
  show ?thesis
    using w by (simp add: mouseReleaseEvent_def Let_def a widget_inv_toggle widget_inv_save_state)
qed

lemma widget_inv_main_startup:
  assumes "main_startup rt e a outcome = Inr w"
  shows "widget_inv w"
proof -
  from assms obtain saved and cfg :: launch and clock clock1 where
    c: "FloatingAnalogClock rt (PInt (launch_size cfg)) (\<not> arg_hide_seconds a)
          (PStr (launch_layer cfg)) (PStr (launch_mode cfg)) (PStr (launch_theme cfg))
          (PStr (launch_font cfg)) = Inr clock"
    and r: "restore_position rt e (arg_x a) (arg_y a) saved clock = Inr clock1"
    and w: "w = set_layer (PStr (launch_layer cfg)) False True (clock1\<lparr>win_visible := True\<rparr>)"
    by (auto simp: main_startup_def split: sum.splits)
  from c have "widget_inv clock" by (rule widget_inv_constructor)
  then have "widget_inv clock1" using r by (rule widget_inv_restore_position)
  then show ?thesis unfolding w by (intro widget_inv_set_layer widget_inv_show)
qed

section \<open>The stopwatch\<close>


lemma sample_running_eq:
  "sample_running = sample_clock\<lparr>mode := ''stopwatch'', win_height := 275, timer_interval := 10,
      stopwatch_start_time := 10, stopwatch_running := True\<rparr>"
  by (simp add: sample_running_def toggle_stopwatch_running_def set_mode_def sample_clock_def
      update_refresh_timer_def apply_window_size_def consts_defs Let_def)

lemma widget_inv_sample_running: "widget_inv sample_running"
  by (simp add: sample_running_eq sample_clock_def widget_inv_def consts_defs)


text \<open>
  Claim C2. In a state where the stopwatch is running, \<^verbatim>\<open>set_mode\<close> with any value
  other than the stopwatch mode stores the time elapsed at that moment and stops the
  stopwatch; after switching back to the stopwatch mode the stopwatch is still stopped
  and every later read gives the time elapsed at the moment of switching away.
\<close>

theorem set_mode_away_folds:
  fixes w :: widget and m :: pyval and t1 t2 :: rat and p1 p2 :: bool
  assumes "widget_inv w" and "stopwatch_running w" and "m \<noteq> PStr MODE_STOPWATCH"
  defines "w1 \<equiv> set_mode t1 m p1 w"
  defines "w2 \<equiv> set_mode t2 (PStr MODE_STOPWATCH) p2 w1"
  shows "mode w1 = MODE_CLOCK \<and> \<not> stopwatch_running w1
       \<and> stopwatch_elapsed_ms w1 = current_stopwatch_ms t1 w
       \<and> mode w2 = MODE_STOPWATCH \<and> \<not> stopwatch_running w2
       \<and> (\<forall>t3. current_stopwatch_ms t3 w2 = current_stopwatch_ms t1 w)"
proof -
  have sw: "mode w = MODE_STOPWATCH"
    using assms(1,2) by (simp add: widget_inv_def)
  have vm: "valid_mode m = MODE_CLOCK"
    using assms(3) by (rule valid_mode_not_stopwatch)
  have ne: "MODE_CLOCK \<noteq> MODE_STOPWATCH"
    by (simp add: consts_defs)
  have a: "mode w1 = MODE_CLOCK \<and> \<not> stopwatch_running w1
       \<and> stopwatch_elapsed_ms w1 = current_stopwatch_ms t1 w"
    unfolding w1_def using sw vm ne assms(2)
    by (simp add: set_mode_def Let_def update_refresh_timer_def apply_window_size_def
        save_state_def)
  have b: "mode w2 = MODE_STOPWATCH \<and> stopwatch_running w2 = stopwatch_running w1
       \<and> stopwatch_elapsed_ms w2 = stopwatch_elapsed_ms w1"
    unfolding w2_def using a ne
    by (simp add: set_mode_def Let_def update_refresh_timer_def apply_window_size_def
        save_state_def)
  show ?thesis
    using a b by (simp add: current_stopwatch_ms_def)
qed

text \<open>
  Claim C2 on a stopwatch started at 10 s, switched to the clock at 12.5 s and back at
  40 s: the read at 99 s gives 2500 ms.
\<close>

theorem set_mode_away_folds_witness:
  "widget_inv sample_running \<and> stopwatch_running sample_running
   \<and> PStr ''clock'' \<noteq> PStr MODE_STOPWATCH
   \<and> \<not> stopwatch_running (set_mode (25 / 2) (PStr ''clock'') True sample_running)
   \<and> current_stopwatch_ms 99
       (set_mode 40 (PStr MODE_STOPWATCH) True
          (set_mode (25 / 2) (PStr ''clock'') True sample_running)) = 2500"
proof -
  have r: "stopwatch_running sample_running" "stopwatch_start_time sample_running = 10"
    "stopwatch_elapsed_ms sample_running = 0"
    by (simp_all add: sample_running_eq sample_clock_def)
  have c: "current_stopwatch_ms (25 / 2) sample_running = 2500"
    using r by (simp add: current_stopwatch_ms_def trunc_rat_def)
  have n: "PStr ''clock'' \<noteq> PStr MODE_STOPWATCH"
    by (simp add: consts_defs)
  from set_mode_away_folds [OF widget_inv_sample_running r(1) n, of "25 / 2" True 40 True]
  show ?thesis
    using c n r(1) widget_inv_sample_running by simp
qed

text \<open>
  Claim C3. \<^verbatim>\<open>reset_stopwatch\<close> sets the accumulated time to 0 and changes nothing else
  but the start instant, which becomes now when the stopwatch is running. The running
  flag keeps its value: a running stopwatch goes on running and counts from zero, a
  stopped one stays stopped at zero.
\<close>

theorem reset_stopwatch_rebases:
  "reset_stopwatch now w =
     w\<lparr>stopwatch_elapsed_ms := 0,
       stopwatch_start_time := (if stopwatch_running w then now else stopwatch_start_time w)\<rparr>
   \<and> stopwatch_elapsed_ms (reset_stopwatch now w) = 0
   \<and> stopwatch_running (reset_stopwatch now w) = stopwatch_running w
   \<and> (stopwatch_running w \<longrightarrow>
        stopwatch_start_time (reset_stopwatch now w) = now
        \<and> (\<forall>t. current_stopwatch_ms t (reset_stopwatch now w) = max 0 (trunc_rat ((t - now) * 1000))))
   \<and> (\<not> stopwatch_running w \<longrightarrow>
        (\<forall>t. current_stopwatch_ms t (reset_stopwatch now w) = 0))"
  by (simp add: reset_stopwatch_def current_stopwatch_ms_def Let_def)

text \<open>
  Claim C3 on a running stopwatch reset at 20 s and read at 23 s, and on a stopped one.
\<close>

theorem reset_stopwatch_rebases_witness:
  "stopwatch_running sample_running
   \<and> stopwatch_running (reset_stopwatch 20 sample_running)
   \<and> stopwatch_elapsed_ms (reset_stopwatch 20 sample_running) = 0
   \<and> current_stopwatch_ms 23 (reset_stopwatch 20 sample_running) = 3000
   \<and> \<not> stopwatch_running sample_clock
   \<and> \<not> stopwatch_running (reset_stopwatch 20 sample_clock)
   \<and> current_stopwatch_ms 23 (reset_stopwatch 20 sample_clock) = 0"
proof -
  have m: "trunc_rat ((23 - 20) * 1000) = 3000"
    by (simp add: trunc_rat_def)
  have r: "stopwatch_running sample_running" "\<not> stopwatch_running sample_clock"
    by (simp_all add: sample_running_eq sample_clock_def)
  from reset_stopwatch_rebases [of 20 sample_running, THEN conjunct2]
    reset_stopwatch_rebases [of 20 sample_clock, THEN conjunct2]
  show ?thesis
    using m r by simp
qed

section \<open>Click or drag\<close>















section \<open>Calling a mutator twice\<close>
















section \<open>Loading a corrupted record\<close>

lemma load_saved_state_failure:
  "load_saved_state (Raises OSError) = Inr Map.empty"
  "load_saved_state (Raises ValueError) = Inr Map.empty"
  by simp_all

lemma load_saved_state_not_a_dict:
  "\<forall>kvs. v \<noteq> PDict kvs \<Longrightarrow> load_saved_state (Parsed v) = Inr Map.empty"
  by (cases v) simp_all

text \<open>
  When the size is no float infinity and the theme can be hashed, every launch setting is
  obtained from its own field alone.
\<close>

lemma launch_settings_fieldwise:
  assumes "valid_size rt (case arg_size a of Some n \<Rightarrow> PInt n
                                            | None \<Rightarrow> dict_get saved ''size'') = Inr sz"
    and "valid_theme (arg_or_saved (arg_theme a) saved ''theme'') = Inr th"
  shows "launch_settings rt a saved =
     Inr \<lparr>launch_size = sz,
          launch_mode = valid_mode (arg_or_saved (arg_mode a) saved ''mode''),
          launch_layer = valid_layer (arg_or_saved (arg_layer a) saved ''layer''),
          launch_theme = th,
          launch_font =
            normalize_readout_font rt (arg_or_saved (arg_readout_font a) saved ''readout_font'')\<rparr>"
  using assms by (simp add: launch_settings_def)

text \<open>
  Claim C8. A corrupted field is meant to fall back to its default and leave the other
  fields alone, as a corrupted mode does. But a theme that is a JSON list cannot be
  hashed, so looking it up in \<^verbatim>\<open>THEME_PRESETS\<close> raises \<^verbatim>\<open>TypeError\<close>, and an infinite
  \<^verbatim>\<open>x\<close> makes \<^verbatim>\<open>int\<close> raise \<^verbatim>\<open>OverflowError\<close>, which \<^verbatim>\<open>restore_position\<close> does not
  catch: in both cases the start-up ends with the error and the valid size 300 of the same
  record is lost.
\<close>

theorem corrupted_field_aborts_startup:
  "main_startup plain_runtime two_screens no_args
     (Parsed (PDict [(''size'', PInt 300), (''theme'', PList [])])) = Inl TypeError
   \<and> main_startup plain_runtime two_screens no_args
       (Parsed (PDict [(''size'', PInt 300), (''x'', PFloat PosInf), (''y'', PInt 0)]))
       = Inl OverflowError
   \<and> launch_settings plain_runtime no_args [''size'' \<mapsto> PInt 300, ''mode'' \<mapsto> PList []]
       = Inr \<lparr>launch_size = 300, launch_mode = ''clock'', launch_layer = ''top'',
              launch_theme = ''midnight'', launch_font = ''Monospace''\<rparr>"
proof -
  have a: "main_startup plain_runtime two_screens no_args
     (Parsed (PDict [(''size'', PInt 300), (''theme'', PList [])])) = Inl TypeError"
    by (simp add: main_startup_def launch_settings_def no_args_def dict_get_def
        arg_or_saved_def valid_size_def valid_theme_def consts_defs)
  have l: "launch_settings plain_runtime no_args
      (map_of (rev [(''size'', PInt 300), (''x'', PFloat PosInf), (''y'', PInt 0)]))
      = Inr \<lparr>launch_size = 300, launch_mode = ''clock'', launch_layer = ''top'',
              launch_theme = ''midnight'', launch_font = ''Monospace''\<rparr>"
    by (simp add: launch_settings_def no_args_def dict_get_def arg_or_saved_def valid_size_def
        valid_theme_def consts_defs)
  have c: "\<exists>clock. FloatingAnalogClock plain_runtime (PInt 300) True (PStr ''top'')
      (PStr ''clock'') (PStr ''midnight'') (PStr ''Monospace'') = Inr clock"
    by (simp add: FloatingAnalogClock_def valid_size_def valid_theme_def consts_defs)
  have x: "saved_xy plain_runtime
      (map_of (rev [(''size'', PInt 300), (''x'', PFloat PosInf), (''y'', PInt 0)]))
      = Inl OverflowError"
    by (simp add: saved_xy_def dict_item_def)
  have r: "restore_position plain_runtime two_screens None None
      (map_of (rev [(''size'', PInt 300), (''x'', PFloat PosInf), (''y'', PInt 0)])) clock
      = Inl OverflowError" for clock
    by (simp only: restore_position_def x) simp
  have b: "main_startup plain_runtime two_screens no_args
       (Parsed (PDict [(''size'', PInt 300), (''x'', PFloat PosInf), (''y'', PInt 0)]))
       = Inl OverflowError"
  proof -
    from c obtain clock where ck: "FloatingAnalogClock plain_runtime (PInt 300) True
        (PStr ''top'') (PStr ''clock'') (PStr ''midnight'') (PStr ''Monospace'') = Inr clock"
      by blast
    have na: "arg_x no_args = None" "arg_y no_args = None" "\<not> arg_hide_seconds no_args"
      by (simp_all add: no_args_def)
    show ?thesis
      by (simp add: main_startup_def l ck r na del: rev.simps map_of.simps)
  qed
  have d: "launch_settings plain_runtime no_args [''size'' \<mapsto> PInt 300, ''mode'' \<mapsto> PList []]
       = Inr \<lparr>launch_size = 300, launch_mode = ''clock'', launch_layer = ''top'',
              launch_theme = ''midnight'', launch_font = ''Monospace''\<rparr>"
    by (simp add: launch_settings_def no_args_def dict_get_def arg_or_saved_def valid_size_def
        valid_theme_def consts_defs)
  show ?thesis
    by (intro conjI a b d)
qed

section \<open>Restoring the position\<close>

lemma cpp_half_bounds:
  assumes "2 * a \<le> n" and "n \<le> 2 * b"
  shows "a \<le> cpp_half n \<and> cpp_half n \<le> b"
proof (cases "0 \<le> n")
  case True
  then have "cpp_half n = n div 2" by (simp add: cpp_half_def)
  moreover have "a \<le> n div 2" using assms(1) by linarith
  moreover have "n div 2 \<le> b" using assms(2) by linarith
  ultimately show ?thesis by simp
next
  case False
  then have "cpp_half n = - ((- n) div 2)" by (simp add: cpp_half_def)
  moreover have "(- n) div 2 \<le> - a" using assms(1) by linarith
  moreover have "- b \<le> (- n) div 2" using assms(2) by linarith
  ultimately show ?thesis by simp
qed

lemma centered_coordinate:
  assumes "2 \<le> W"
  shows "between L (L + W - 1) (cpp_half ((L + (W - ww) div 2) + ((L + (W - ww) div 2) + ww - 1)))"
proof -
  define k where "k = W - ww"
  have m: "0 \<le> k mod 2" "k mod 2 \<le> 1" by simp_all
  have d: "2 * (k div 2) = k - k mod 2" by (simp add: minus_mod_eq_mult_div [symmetric])
  let ?n = "(L + k div 2) + ((L + k div 2) + ww - 1)"
  have "?n = 2 * L + W - 1 - k mod 2"
    using d by (simp add: k_def)
  then have "2 * L \<le> ?n" and "?n \<le> 2 * (L + W - 1)"
    using m assms by simp_all
  then have "L \<le> cpp_half ?n \<and> cpp_half ?n \<le> L + W - 1"
    by (rule cpp_half_bounds)
  then show ?thesis
    using assms by (simp add: between_def k_def)
qed

lemma is_on_any_screen_iff:
  "is_on_any_screen e w =
     (\<exists>s\<in>set (screens e). rect_contains s (rect_center (frameGeometry w)))"
  by (simp add: is_on_any_screen_def list_ex_iff Let_def)

lemma current_screen_off_screen:
  assumes "\<not> is_on_any_screen e w"
  shows "current_screen e w =
     (case (case windowHandle e of None \<Rightarrow> None | Some h \<Rightarrow> handle_screen h) of
        Some s \<Rightarrow> Some s
      | None \<Rightarrow> (case screenAt e (cursor_pos e) of
                    Some s \<Rightarrow> Some s
                  | None \<Rightarrow> primaryScreen e))"
proof -
  have "screenAt e (rect_center (frameGeometry w)) = None"
    using assms by (simp add: screenAt_def find_None_iff is_on_any_screen_iff)
  then show ?thesis
    by (simp add: current_screen_def Let_def split: option.splits)
qed

lemma center_on_screen_geometry:
  assumes "current_screen e w = Some g"
  shows "frameGeometry (center_on_screen e w) =
     \<lparr>rect_left = rect_left g + (rect_width g - win_width w) div 2,
      rect_top = rect_top g + (rect_height g - win_height w) div 2,
      rect_width = win_width w, rect_height = win_height w\<rparr>"
  using assms by (simp add: center_on_screen_def frameGeometry_def save_state_def move_def)

lemma centered_inside:
  assumes "current_screen e w = Some g" and "2 \<le> rect_width g" and "2 \<le> rect_height g"
  shows "rect_contains g (rect_center (frameGeometry (center_on_screen e w)))"
proof -
  have x: "between (rect_left g) (rect_left g + rect_width g - 1)
      (cpp_half ((rect_left g + (rect_width g - win_width w) div 2)
         + ((rect_left g + (rect_width g - win_width w) div 2) + win_width w - 1)))"
    using assms(2) by (rule centered_coordinate)
  have y: "between (rect_top g) (rect_top g + rect_height g - 1)
      (cpp_half ((rect_top g + (rect_height g - win_height w) div 2)
         + ((rect_top g + (rect_height g - win_height w) div 2) + win_height w - 1)))"
    using assms(3) by (rule centered_coordinate)
  show ?thesis
    using x y assms(2)
    by (simp add: center_on_screen_geometry [OF assms(1)] rect_contains_def rect_center_def
        rect_right_def rect_bottom_def)
qed

lemma restore_position_saved:
  assumes "cli_x = None \<or> cli_y = None" and "saved_xy rt state = Inr p"
  shows "restore_position rt e cli_x cli_y state w =
     Inr (if \<not> is_on_any_screen e (move p w) then center_on_screen e (move p w)
          else move p w)"
  using assms by (cases cli_x; cases cli_y) (simp_all add: restore_position_def Let_def)

text \<open>
  Claim C9, amended. The validity check is true exactly when the centre of the window
  frame lies inside the geometry of at least one screen. A loaded position that passes
  the check is kept. A loaded position that fails it makes the widget centre itself on
  its current screen: the screen of the window handle if there is one, otherwise the
  screen under the cursor, otherwise the primary screen. Its top-left corner is placed so
  that the window is centred in that screen's geometry, and the frame centre then lies
  inside that screen whenever the screen is at least two pixels wide and high.
\<close>

theorem restore_position_recentres:
  "is_on_any_screen e w =
     (\<exists>s\<in>set (screens e). rect_contains s (rect_center (frameGeometry w)))
   \<and> ((cli_x = None \<or> cli_y = None) \<and> saved_xy rt state = Inr p \<longrightarrow>
        (is_on_any_screen e (move p w) \<longrightarrow>
           restore_position rt e cli_x cli_y state w = Inr (move p w))
      \<and> (\<not> is_on_any_screen e (move p w) \<longrightarrow>
           restore_position rt e cli_x cli_y state w = Inr (center_on_screen e (move p w))
         \<and> current_screen e (move p w) =
             (case (case windowHandle e of None \<Rightarrow> None | Some h \<Rightarrow> handle_screen h) of
                Some s \<Rightarrow> Some s
              | None \<Rightarrow> (case screenAt e (cursor_pos e) of
                            Some s \<Rightarrow> Some s
                          | None \<Rightarrow> primaryScreen e))
         \<and> (\<forall>g. current_screen e (move p w) = Some g \<longrightarrow>
                win_x (center_on_screen e (move p w))
                  = rect_left g + (rect_width g - win_width w) div 2
              \<and> win_y (center_on_screen e (move p w))
                  = rect_top g + (rect_height g - win_height w) div 2
              \<and> (2 \<le> rect_width g \<and> 2 \<le> rect_height g \<longrightarrow>
                   rect_contains g
                     (rect_center (frameGeometry (center_on_screen e (move p w))))))))"
proof -
  have a: "is_on_any_screen e w =
     (\<exists>s\<in>set (screens e). rect_contains s (rect_center (frameGeometry w)))"
    by (rule is_on_any_screen_iff)
  have b: "(cli_x = None \<or> cli_y = None) \<and> saved_xy rt state = Inr p \<longrightarrow>
        (is_on_any_screen e (move p w) \<longrightarrow>
           restore_position rt e cli_x cli_y state w = Inr (move p w))
      \<and> (\<not> is_on_any_screen e (move p w) \<longrightarrow>
           restore_position rt e cli_x cli_y state w = Inr (center_on_screen e (move p w))
         \<and> current_screen e (move p w) =
             (case (case windowHandle e of None \<Rightarrow> None | Some h \<Rightarrow> handle_screen h) of
                Some s \<Rightarrow> Some s
              | None \<Rightarrow> (case screenAt e (cursor_pos e) of
                            Some s \<Rightarrow> Some s
                          | None \<Rightarrow> primaryScreen e))
         \<and> (\<forall>g. current_screen e (move p w) = Some g \<longrightarrow>
                win_x (center_on_screen e (move p w))
                  = rect_left g + (rect_width g - win_width w) div 2
              \<and> win_y (center_on_screen e (move p w))
                  = rect_top g + (rect_height g - win_height w) div 2
              \<and> (2 \<le> rect_width g \<and> 2 \<le> rect_height g \<longrightarrow>
                   rect_contains g
                     (rect_center (frameGeometry (center_on_screen e (move p w)))))))"
  proof (intro impI conjI allI)
    assume h: "(cli_x = None \<or> cli_y = None) \<and> saved_xy rt state = Inr p"
    note r = restore_position_saved [OF h [THEN conjunct1] h [THEN conjunct2], of e w]
    {
      assume "is_on_any_screen e (move p w)"
      then show "restore_position rt e cli_x cli_y state w = Inr (move p w)"
        using r by simp
    }
    {
      assume off: "\<not> is_on_any_screen e (move p w)"
      then show "restore_position rt e cli_x cli_y state w
          = Inr (center_on_screen e (move p w))"
        using r by simp
      show "current_screen e (move p w) =
             (case (case windowHandle e of None \<Rightarrow> None | Some h \<Rightarrow> handle_screen h) of
                Some s \<Rightarrow> Some s
              | None \<Rightarrow> (case screenAt e (cursor_pos e) of
                            Some s \<Rightarrow> Some s
                          | None \<Rightarrow> primaryScreen e))"
        using off by (rule current_screen_off_screen)
    }
    {
      fix g
      assume cs: "current_screen e (move p w) = Some g"
      have sz: "win_width (move p w) = win_width w" "win_height (move p w) = win_height w"
        by (simp_all add: move_def)
      have fg: "rect_left (frameGeometry (center_on_screen e (move p w)))
            = rect_left g + (rect_width g - win_width w) div 2"
          "rect_top (frameGeometry (center_on_screen e (move p w)))
            = rect_top g + (rect_height g - win_height w) div 2"
        by (simp_all only: center_on_screen_geometry [OF cs] sz qrect.simps)
      show "win_x (center_on_screen e (move p w))
          = rect_left g + (rect_width g - win_width w) div 2"
        using fg(1) by (simp only: frameGeometry_def qrect.simps)
      show "win_y (center_on_screen e (move p w))
          = rect_top g + (rect_height g - win_height w) div 2"
        using fg(2) by (simp only: frameGeometry_def qrect.simps)
      {
        assume "2 \<le> rect_width g \<and> 2 \<le> rect_height g"
        then show "rect_contains g
            (rect_center (frameGeometry (center_on_screen e (move p w))))"
          using cs by (intro centered_inside) simp_all
      }
    }
  qed
  show ?thesis
    by (intro conjI a b)
qed

lemma off_screen_restored:
  "saved_xy plain_runtime [''x'' \<mapsto> PInt 5000, ''y'' \<mapsto> PInt 5000] = Inr (5000, 5000)"
  "\<not> is_on_any_screen two_screens (move (5000, 5000) sample_clock)"
  "current_screen two_screens (move (5000, 5000) sample_clock)
     = Some \<lparr>rect_left = 1920, rect_top = 0, rect_width = 1920, rect_height = 1080\<rparr>"
  "center_on_screen two_screens (move (5000, 5000) sample_clock)
     = save_state (move (2770, 430) sample_clock)"
proof -
  show "saved_xy plain_runtime [''x'' \<mapsto> PInt 5000, ''y'' \<mapsto> PInt 5000] = Inr (5000, 5000)"
    by (simp add: saved_xy_def dict_item_def)
  have c: "rect_center (frameGeometry (move (5000, 5000) sample_clock)) = (5109, 5109)"
    by (simp add: frameGeometry_def move_def sample_clock_def rect_center_def rect_right_def
        rect_bottom_def cpp_half_def)
  show off: "\<not> is_on_any_screen two_screens (move (5000, 5000) sample_clock)"
    by (simp add: is_on_any_screen_def c two_screens_def rect_contains_def between_def
        rect_right_def rect_bottom_def)
  have "screenAt two_screens (cursor_pos two_screens)
     = Some \<lparr>rect_left = 1920, rect_top = 0, rect_width = 1920, rect_height = 1080\<rparr>"
    by (simp add: screenAt_def two_screens_def rect_contains_def between_def rect_right_def
        rect_bottom_def)
  then show cs: "current_screen two_screens (move (5000, 5000) sample_clock)
     = Some \<lparr>rect_left = 1920, rect_top = 0, rect_width = 1920, rect_height = 1080\<rparr>"
    by (simp add: current_screen_off_screen [OF off]) (simp add: two_screens_def)
  show "center_on_screen two_screens (move (5000, 5000) sample_clock)
     = save_state (move (2770, 430) sample_clock)"
    by (simp add: center_on_screen_def cs) (simp add: move_def save_state_def sample_clock_def)
qed

text \<open>
  Claim C9, amended, at a saved position far off both screens: the widget is centred on
  the second screen, where the cursor is.
\<close>

theorem restore_position_recentres_witness:
  "saved_xy plain_runtime [''x'' \<mapsto> PInt 5000, ''y'' \<mapsto> PInt 5000] = Inr (5000, 5000)
   \<and> \<not> is_on_any_screen two_screens (move (5000, 5000) sample_clock)
   \<and> restore_position plain_runtime two_screens None None
        [''x'' \<mapsto> PInt 5000, ''y'' \<mapsto> PInt 5000] sample_clock
       = Inr (center_on_screen two_screens (move (5000, 5000) sample_clock))
   \<and> rect_contains \<lparr>rect_left = 1920, rect_top = 0, rect_width = 1920, rect_height = 1080\<rparr>
        (rect_center (frameGeometry (center_on_screen two_screens
           (move (5000, 5000) sample_clock))))"
proof -
  note t = restore_position_recentres [of two_screens sample_clock None None plain_runtime
      "[''x'' \<mapsto> PInt 5000, ''y'' \<mapsto> PInt 5000]" "(5000, 5000)",
      THEN conjunct2, rule_format]
  have h: "((None :: int option) = None \<or> (None :: int option) = None)
      \<and> saved_xy plain_runtime [''x'' \<mapsto> PInt 5000, ''y'' \<mapsto> PInt 5000] = Inr (5000, 5000)"
    using off_screen_restored(1) by simp
  note u = t [OF h, THEN conjunct2, rule_format, OF off_screen_restored(2)]
  have a: "restore_position plain_runtime two_screens None None
        [''x'' \<mapsto> PInt 5000, ''y'' \<mapsto> PInt 5000] sample_clock
       = Inr (center_on_screen two_screens (move (5000, 5000) sample_clock))"
    using u by (rule conjunct1)
  have g: "2 \<le> rect_width \<lparr>rect_left = 1920, rect_top = 0, rect_width = 1920, rect_height = 1080\<rparr>
      \<and> 2 \<le> rect_height \<lparr>rect_left = 1920, rect_top = 0, rect_width = 1920, rect_height = 1080\<rparr>"
    by simp
  have b: "rect_contains \<lparr>rect_left = 1920, rect_top = 0, rect_width = 1920, rect_height = 1080\<rparr>
        (rect_center (frameGeometry (center_on_screen two_screens
           (move (5000, 5000) sample_clock))))"
    using u [THEN conjunct2, THEN conjunct2, rule_format, OF off_screen_restored(3),
        THEN conjunct2, THEN conjunct2, rule_format, OF g] .
  show ?thesis
    by (intro conjI off_screen_restored(1) off_screen_restored(2) a b)
qed

text \<open>
  Claim C9 as stated fails on a desktop with two screens when the cursor is on the second
  one: a saved position off both screens centres the widget on the second screen, at
  (2770, 430), and its frame centre is then outside the primary screen.
\<close>

theorem recentres_on_cursor_screen_counterexample:
  "\<not> is_on_any_screen two_screens (move (5000, 5000) sample_clock)
   \<and> restore_position plain_runtime two_screens None None
        [''x'' \<mapsto> PInt 5000, ''y'' \<mapsto> PInt 5000] sample_clock
       = Inr (save_state (move (2770, 430) sample_clock))
   \<and> primaryScreen two_screens
       = Some \<lparr>rect_left = 0, rect_top = 0, rect_width = 1920, rect_height = 1080\<rparr>
   \<and> \<not> rect_contains \<lparr>rect_left = 0, rect_top = 0, rect_width = 1920, rect_height = 1080\<rparr>
        (rect_center (frameGeometry (save_state (move (2770, 430) sample_clock))))"
proof -
  have a: "restore_position plain_runtime two_screens None None
        [''x'' \<mapsto> PInt 5000, ''y'' \<mapsto> PInt 5000] sample_clock
       = Inr (save_state (move (2770, 430) sample_clock))"
    using restore_position_saved [of None None plain_runtime
        "[''x'' \<mapsto> PInt 5000, ''y'' \<mapsto> PInt 5000]" "(5000, 5000)" two_screens sample_clock]
      off_screen_restored
    by simp
  have b: "primaryScreen two_screens
       = Some \<lparr>rect_left = 0, rect_top = 0, rect_width = 1920, rect_height = 1080\<rparr>"
    by (simp add: primaryScreen_def two_screens_def)
  have "rect_center (frameGeometry (save_state (move (2770, 430) sample_clock))) = (2879, 539)"
    by (simp add: frameGeometry_def save_state_def move_def sample_clock_def rect_center_def
        rect_right_def rect_bottom_def cpp_half_def)
  then have c: "\<not> rect_contains
        \<lparr>rect_left = 0, rect_top = 0, rect_width = 1920, rect_height = 1080\<rparr>
        (rect_center (frameGeometry (save_state (move (2770, 430) sample_clock))))"
    by (simp add: rect_contains_def between_def rect_right_def rect_bottom_def)
  show ?thesis
    by (intro conjI off_screen_restored(2) a b c)
qed

end
